theory Spec2Isabelle
  imports Main "HOL-Library.AList"
begin

section \<open>Python values used by the program\<close>

subsection \<open>Strings\<close>

text \<open>
  A Python \<open>str\<close> is a sequence of Unicode code points, and is modelled as the list of
  them. The texts the program itself holds are ASCII; \<open>lit\<close> gives the code points of
  such a text.
\<close>

type_synonym str = "nat list"

definition lit :: "string \<Rightarrow> str" where
  "lit s = map of_char s"

definition apostrophe :: str where
  "apostrophe = [39]"

definition newline :: str where
  "newline = [10]"

text \<open>
  The methods of \<open>str\<close> that the program calls read the Unicode character database of
  the interpreter, and \<open>strftime\<close> is the one of the C library. What these do on ASCII
  is written out below; what they do beyond ASCII is a parameter of the model, the
  \<open>platform\<close>:
  \<^item> \<open>category_beyond\<close>: the general category of a code point, by its major class
    (\<open>L\<close>, \<open>M\<close>, \<open>N\<close>, \<open>P\<close>, \<open>S\<close>, \<open>Z\<close>, \<open>C\<close>);
  \<^item> \<open>digit_beyond\<close>: whether the code point is a digit for \<open>str.isdigit\<close>
    (numeric type \<open>Digit\<close> or \<open>Decimal\<close>);
  \<^item> \<open>space_beyond\<close>: whether it is whitespace for \<open>str.split\<close> and \<open>str.strip\<close>;
  \<^item> \<open>decimal_beyond\<close>: its value when it is a decimal digit, which \<open>\d\<close> of a
    regular expression matches and \<open>int\<close> reads;
  \<^item> \<open>lower_beyond\<close> and \<open>capitalize_beyond\<close>: \<open>str.lower\<close> and \<open>str.capitalize\<close> on
    a string that is not all ASCII;
  \<^item> \<open>pad_year\<close>: whether \<open>%Y\<close> of \<open>strftime\<close> pads a year below 1000 with zeros to
    four digits (the C library of Linux does not).
\<close>

datatype category = Letter | Mark | Number | Punctuation | Symbol | Separator | Other

record platform =
  category_beyond :: "nat \<Rightarrow> category"
  digit_beyond :: "nat \<Rightarrow> bool"
  space_beyond :: "nat \<Rightarrow> bool"
  decimal_beyond :: "nat \<Rightarrow> int option"
  lower_beyond :: "str \<Rightarrow> str"
  capitalize_beyond :: "str \<Rightarrow> str"
  pad_year :: bool

text \<open>The general category of the ASCII code points: controls, the space, the digits,
  the letters, nine symbols (dollar, plus, less, equals, greater, circumflex, grave
  accent, vertical bar, tilde), and punctuation for the rest.\<close>

definition ascii_category :: "nat \<Rightarrow> category" where
  "ascii_category c =
     (if c < 32 \<or> c = 127 then Other
      else if c = 32 then Separator
      else if 48 \<le> c \<and> c \<le> 57 then Number
      else if (65 \<le> c \<and> c \<le> 90) \<or> (97 \<le> c \<and> c \<le> 122) then Letter
      else if c = 36 \<or> c = 43 \<or> c = 60 \<or> c = 61 \<or> c = 62 \<or> c = 94 \<or> c = 96 \<or>
              c = 124 \<or> c = 126 then Symbol
      else Punctuation)"

definition category_of :: "platform \<Rightarrow> nat \<Rightarrow> category" where
  "category_of P c = (if c < 128 then ascii_category c else category_beyond P c)"

text \<open>A character is alphabetic for \<open>str.isalpha\<close> when its general category is a letter
  (\<open>Lm\<close>, \<open>Lt\<close>, \<open>Lu\<close>, \<open>Ll\<close> or \<open>Lo\<close>).\<close>

definition isalpha_char :: "platform \<Rightarrow> nat \<Rightarrow> bool" where
  "isalpha_char P c = (category_of P c = Letter)"

definition isdigit_char :: "platform \<Rightarrow> nat \<Rightarrow> bool" where
  "isdigit_char P c = (if c < 128 then 48 \<le> c \<and> c \<le> 57 else digit_beyond P c)"

definition isspace_char :: "platform \<Rightarrow> nat \<Rightarrow> bool" where
  "isspace_char P c =
     (if c < 128 then (9 \<le> c \<and> c \<le> 13) \<or> (28 \<le> c \<and> c \<le> 32) else space_beyond P c)"

text \<open>\<open>str.isalpha()\<close>: every character is alphabetic and there is at least one.\<close>

definition isalpha :: "platform \<Rightarrow> str \<Rightarrow> bool" where
  "isalpha P s = (s \<noteq> [] \<and> list_all (isalpha_char P) s)"

text \<open>\<open>str.isdigit()\<close>: every character is a digit and there is at least one.\<close>

definition isdigit :: "platform \<Rightarrow> str \<Rightarrow> bool" where
  "isdigit P s = (s \<noteq> [] \<and> list_all (isdigit_char P) s)"

definition is_ascii :: "str \<Rightarrow> bool" where
  "is_ascii s = list_all (\<lambda>c. c < 128) s"

definition lower_char :: "nat \<Rightarrow> nat" where
  "lower_char c = (if 65 \<le> c \<and> c \<le> 90 then c + 32 else c)"

definition upper_char :: "nat \<Rightarrow> nat" where
  "upper_char c = (if 97 \<le> c \<and> c \<le> 122 then c - 32 else c)"

text \<open>\<open>str.lower()\<close>.\<close>

definition lower :: "platform \<Rightarrow> str \<Rightarrow> str" where
  "lower P s = (if is_ascii s then map lower_char s else lower_beyond P s)"

text \<open>\<open>str.capitalize()\<close>: first character upper case, the rest lower case.\<close>

definition capitalize :: "platform \<Rightarrow> str \<Rightarrow> str" where
  "capitalize P s =
     (if is_ascii s
      then (case s of [] \<Rightarrow> [] | c # cs \<Rightarrow> upper_char c # map lower_char cs)
      else capitalize_beyond P s)"

text \<open>\<open>sep.join(xs)\<close>.\<close>

fun join :: "str \<Rightarrow> str list \<Rightarrow> str" where
  "join sep [] = []"
| "join sep [x] = x"
| "join sep (x # y # ys) = x @ sep @ join sep (y # ys)"

text \<open>Decimal digits of a natural number, as \<open>str(n)\<close> prints them.\<close>

fun str_of_nat :: "nat \<Rightarrow> str" where
  "str_of_nat n =
     (if n < 10 then [48 + n]
      else str_of_nat (n div 10) @ [48 + n mod 10])"

text \<open>A number zero-padded on the left to \<open>w\<close> digits.\<close>

definition zero_pad :: "nat \<Rightarrow> nat \<Rightarrow> str" where
  "zero_pad w n = replicate (w - length (str_of_nat n)) 48 @ str_of_nat n"

subsection \<open>Exceptions\<close>

text \<open>The exceptions the program raises or catches, each with its message.\<close>

datatype exn = ValueError str | KeyError str | IndexError str

subsection \<open>\<open>datetime\<close>\<close>

text \<open>
  A naive \<open>datetime\<close> of the proleptic Gregorian calendar, with the arithmetic of
  Python's \<open>datetime\<close> module: ordinals count days from 0001-01-01 (ordinal 1), and
  \<open>weekday()\<close> is 0 on Monday and 6 on Sunday.
\<close>

record datetime =
  year :: int
  month :: int
  day :: int
  hour :: int
  minute :: int
  second :: int
  microsecond :: int

definition is_leap :: "int \<Rightarrow> bool" where
  "is_leap y = (y mod 4 = 0 \<and> (y mod 100 \<noteq> 0 \<or> y mod 400 = 0))"

definition days_in_month :: "int \<Rightarrow> int \<Rightarrow> int" where
  "days_in_month y m =
     (if m = 2 then (if is_leap y then 29 else 28)
      else if m = 4 \<or> m = 6 \<or> m = 9 \<or> m = 11 then 30
      else 31)"

definition days_before_year :: "int \<Rightarrow> int" where
  "days_before_year y =
     (let y' = y - 1 in y' * 365 + y' div 4 - y' div 100 + y' div 400)"

text \<open>The days of the year before month \<open>m\<close>: the table for a common year, and one
  more after February of a leap year.\<close>

definition days_before_month :: "int \<Rightarrow> int \<Rightarrow> int" where
  "days_before_month y m =
     [0, 31, 59, 90, 120, 151, 181, 212, 243, 273, 304, 334] ! nat (m - 1) +
     (if 2 < m \<and> is_leap y then 1 else 0)"

definition toordinal :: "datetime \<Rightarrow> int" where
  "toordinal d = days_before_year (year d) + days_before_month (year d) (month d) + day d"

definition weekday :: "datetime \<Rightarrow> int" where
  "weekday d = (toordinal d + 6) mod 7"

text \<open>The check every \<open>datetime\<close> constructor and \<open>replace\<close> runs on the date fields.\<close>

definition check_date_fields :: "int \<Rightarrow> int \<Rightarrow> int \<Rightarrow> exn + unit" where
  "check_date_fields y m d =
     (if y < 1 \<or> 9999 < y
        then Inl (ValueError (lit ''year '' @ (if y < 0 then lit ''-'' else []) @
                               str_of_nat (nat \<bar>y\<bar>) @ lit '' is out of range''))
      else if m < 1 \<or> 12 < m then Inl (ValueError (lit ''month must be in 1..12''))
      else if d < 1 \<or> days_in_month y m < d
        then Inl (ValueError (lit ''day is out of range for month''))
      else Inr ())"

text \<open>\<open>d.replace(year=y)\<close> and \<open>d.replace(day=n)\<close>: a new value, or \<open>ValueError\<close> when
  the date does not exist.\<close>

definition replace_year :: "int \<Rightarrow> datetime \<Rightarrow> exn + datetime" where
  "replace_year y d =
     (case check_date_fields y (month d) (day d) of
        Inl e \<Rightarrow> Inl e
      | Inr _ \<Rightarrow> Inr (d\<lparr>year := y\<rparr>))"

definition replace_day :: "int \<Rightarrow> datetime \<Rightarrow> exn + datetime" where
  "replace_day n d =
     (case check_date_fields (year d) (month d) n of
        Inl e \<Rightarrow> Inl e
      | Inr _ \<Rightarrow> Inr (d\<lparr>day := n\<rparr>))"

text \<open>The position of a \<open>datetime\<close> on the time line, in microseconds.\<close>

definition micros :: "datetime \<Rightarrow> int" where
  "micros d =
     (((toordinal d * 24 + hour d) * 60 + minute d) * 60 + second d) * 1000000 + microsecond d"

text \<open>\<open>a < b\<close> on naive datetimes.\<close>

definition dt_less :: "datetime \<Rightarrow> datetime \<Rightarrow> bool" where
  "dt_less a b = (micros a < micros b)"

text \<open>\<open>(a - b).days\<close>: a \<open>timedelta\<close> is normalised so that its seconds and microseconds
  are not negative, hence the whole days are the floor of the difference.\<close>

definition timedelta_days :: "datetime \<Rightarrow> datetime \<Rightarrow> int" where
  "timedelta_days a b = (micros a - micros b) div 86400000000"

text \<open>\<open>d.strftime("%d.%m.%Y")\<close>: day and month with two digits, the year with its four
  digits from 1000 on, and below 1000 as the C library prints it.\<close>

definition year_text :: "platform \<Rightarrow> nat \<Rightarrow> str" where
  "year_text P y =
     (if 1000 \<le> y then str_of_nat y
      else if pad_year P then zero_pad 4 y
      else str_of_nat y)"

definition strftime :: "platform \<Rightarrow> datetime \<Rightarrow> str" where
  "strftime P d =
     zero_pad 2 (nat (day d)) @ lit ''.'' @ zero_pad 2 (nat (month d)) @ lit ''.'' @
     year_text P (nat (year d))"

text \<open>The \<open>datetime\<close> at midnight of a date, as \<open>strptime\<close> with a date-only format
  returns it.\<close>

definition midnight :: "int \<Rightarrow> int \<Rightarrow> int \<Rightarrow> datetime" where
  "midnight y m d =
     \<lparr>year = y, month = m, day = d, hour = 0, minute = 0, second = 0, microsecond = 0\<rparr>"

section \<open>Fields\<close>

text \<open>
  \<open>Field\<close> holds one attribute, \<open>value\<close>; \<open>Name\<close>, \<open>Phone\<close> and \<open>Birthday\<close> extend it with
  a check in \<open>__init__\<close>. A field is modelled by its value, and each constructor by a
  function that returns the stored value or the \<open>ValueError\<close> it raises.
\<close>

definition Name_init :: "platform \<Rightarrow> str \<Rightarrow> exn + str" where
  "Name_init P v =
     (if \<not> isalpha P v
        then Inl (ValueError (lit ''Name should contain only alphabetic characters.''))
      else Inr v)"

definition Phone_init :: "platform \<Rightarrow> str \<Rightarrow> exn + str" where
  "Phone_init P v =
     (if \<not> isdigit P v \<or> length v \<noteq> 10
        then Inl (ValueError (lit ''Phone number should contain 10 digits.''))
      else Inr v)"

text \<open>
  \<open>datetime.strptime(s, "%d.%m.%Y")\<close>. The format compiles to the pattern
  \<open>(3[0-1]|[1-2]\d|0[1-9]|[1-9]| [1-9])\.(1[0-2]|0[1-9]|[1-9])\.(\d\d\d\d)\<close>, which has to
  match the whole string; \<open>\d\<close> matches every decimal digit of the platform, and \<open>int\<close>
  reads it. The three numbers then have to form a date.
\<close>

definition digit_val :: "platform \<Rightarrow> nat \<Rightarrow> int option" where
  "digit_val P c =
     (if c < 128 then (if 48 \<le> c \<and> c \<le> 57 then Some (int c - 48) else None)
      else decimal_beyond P c)"

text \<open>The value of one of the ASCII digits \<open>1\<close> to \<open>9\<close>.\<close>

definition nonzero_digit :: "nat \<Rightarrow> int option" where
  "nonzero_digit c = (if 49 \<le> c \<and> c \<le> 57 then Some (int c - 48) else None)"

fun day_token :: "platform \<Rightarrow> str \<Rightarrow> int option" where
  "day_token P [a, b] =
     (if a = 51 \<and> (b = 48 \<or> b = 49) then Some (30 + (int b - 48))
      else if a = 49 \<or> a = 50
        then (case digit_val P b of
                None \<Rightarrow> None
              | Some v \<Rightarrow> Some (10 * (int a - 48) + v))
      else if a = 48 \<or> a = 32 then nonzero_digit b
      else None)"
| "day_token P [a] = nonzero_digit a"
| "day_token P s = None"

fun month_token :: "str \<Rightarrow> int option" where
  "month_token [a, b] =
     (if a = 49 \<and> (b = 48 \<or> b = 49 \<or> b = 50) then Some (10 + (int b - 48))
      else if a = 48 then nonzero_digit b
      else None)"
| "month_token [a] = nonzero_digit a"
| "month_token s = None"

fun year_token :: "platform \<Rightarrow> str \<Rightarrow> int option" where
  "year_token P [a, b, c, d] =
     (case (digit_val P a, digit_val P b, digit_val P c, digit_val P d) of
        (Some x, Some y, Some z, Some w) \<Rightarrow> Some (1000 * x + 100 * y + 10 * z + w)
      | _ \<Rightarrow> None)"
| "year_token P s = None"

text \<open>\<open>s.split(sep)\<close> for a one-character separator.\<close>

fun split_on :: "nat \<Rightarrow> str \<Rightarrow> str list" where
  "split_on sep [] = [[]]"
| "split_on sep (c # cs) =
     (if c = sep then [] # split_on sep cs
      else (case split_on sep cs of
              [] \<Rightarrow> [[c]]
            | t # ts \<Rightarrow> (c # t) # ts))"

definition strptime :: "platform \<Rightarrow> str \<Rightarrow> exn + datetime" where
  "strptime P s =
     (case split_on 46 s of
        [d, m, y] \<Rightarrow>
          (case day_token P d of
             None \<Rightarrow> Inl (ValueError (lit ''time data does not match format''))
           | Some dd \<Rightarrow>
               (case month_token m of
                  None \<Rightarrow> Inl (ValueError (lit ''time data does not match format''))
                | Some mm \<Rightarrow>
                    (case year_token P y of
                       None \<Rightarrow> Inl (ValueError (lit ''time data does not match format''))
                     | Some yy \<Rightarrow>
                         (case check_date_fields yy mm dd of
                            Inl e \<Rightarrow> Inl e
                          | Inr u \<Rightarrow> Inr (midnight yy mm dd)))))
      | _ \<Rightarrow> Inl (ValueError (lit ''time data does not match format'')))"

text \<open>\<open>Birthday.__init__\<close> turns every \<open>ValueError\<close> of the parser into its own.\<close>

definition Birthday_init :: "platform \<Rightarrow> str \<Rightarrow> exn + datetime" where
  "Birthday_init P v =
     (case strptime P v of
        Inl (ValueError m) \<Rightarrow> Inl (ValueError (lit ''Invalid date format. Use DD.MM.YYYY''))
      | Inl e \<Rightarrow> Inl e
      | Inr d \<Rightarrow> Inr d)"

section \<open>Record\<close>

text \<open>
  A contact. Every \<open>Phone\<close> of \<open>phones\<close> is an object of its own (\<open>add_phone\<close> builds a
  new one each time) and \<open>Phone\<close> defines no equality, so a phone object is identified
  by its position in the list.
\<close>

record Record =
  name :: str
  phones :: "str list"
  birthday :: "datetime option"

definition Record_init :: "platform \<Rightarrow> str \<Rightarrow> exn + Record" where
  "Record_init P n =
     (case Name_init P n of
        Inl e \<Rightarrow> Inl e
      | Inr v \<Rightarrow> Inr \<lparr>name = v, phones = [], birthday = None\<rparr>)"

definition add_phone :: "platform \<Rightarrow> str \<Rightarrow> Record \<Rightarrow> exn + Record" where
  "add_phone P phone r =
     (case Phone_init P phone of
        Inl e \<Rightarrow> Inl e
      | Inr v \<Rightarrow> Inr (r\<lparr>phones := phones r @ [v]\<rparr>))"

text \<open>The method \<open>Record.add_birthday\<close> (the handler of the same name is \<open>add_birthday\<close>
  below).\<close>

definition Record_add_birthday :: "platform \<Rightarrow> str \<Rightarrow> Record \<Rightarrow> exn + Record" where
  "Record_add_birthday P b r =
     (case Birthday_init P b of
        Inl e \<Rightarrow> Inl e
      | Inr d \<Rightarrow> Inr (r\<lparr>birthday := Some d\<rparr>))"

text \<open>
  \<open>for p in self.phones\<close> reads the list through an index that grows by one at each
  step, and stops when the index reaches the current length. In \<open>remove_phone\<close> the
  body deletes the object just read (\<open>self.phones.remove(p)\<close> finds it at the position
  it was read from), so the list shrinks under the running index.
\<close>

definition remove_at :: "nat \<Rightarrow> 'a list \<Rightarrow> 'a list" where
  "remove_at i xs = take i xs @ drop (Suc i) xs"

function remove_phone_loop :: "nat \<Rightarrow> str \<Rightarrow> str list \<Rightarrow> str list" where
  "remove_phone_loop i phone ps =
     (if i < length ps
      then (if ps ! i = phone
            then remove_phone_loop (Suc i) phone (remove_at i ps)
            else remove_phone_loop (Suc i) phone ps)
      else ps)"
  by pat_completeness auto
termination
  by (relation "measure (\<lambda>(i, phone, ps). length ps - i)") (auto simp: remove_at_def)

declare remove_phone_loop.simps [simp del]

definition remove_phone :: "str \<Rightarrow> Record \<Rightarrow> Record" where
  "remove_phone phone r = r\<lparr>phones := remove_phone_loop 0 phone (phones r)\<rparr>"

text \<open>In \<open>edit_phone\<close> the body assigns \<open>phone.value\<close> of the object just read; the list
  keeps its length.\<close>

function edit_phone_loop :: "nat \<Rightarrow> str \<Rightarrow> str \<Rightarrow> str list \<Rightarrow> str list" where
  "edit_phone_loop i old_phone new_phone ps =
     (if i < length ps
      then (if ps ! i = old_phone
            then edit_phone_loop (Suc i) old_phone new_phone (ps[i := new_phone])
            else edit_phone_loop (Suc i) old_phone new_phone ps)
      else ps)"
  by pat_completeness auto
termination
  by (relation "measure (\<lambda>(i, old_phone, new_phone, ps). length ps - i)") auto

declare edit_phone_loop.simps [simp del]

definition edit_phone :: "str \<Rightarrow> str \<Rightarrow> Record \<Rightarrow> Record" where
  "edit_phone old_phone new_phone r =
     r\<lparr>phones := edit_phone_loop 0 old_phone new_phone (phones r)\<rparr>"

fun find_phone_loop :: "str \<Rightarrow> str list \<Rightarrow> str option" where
  "find_phone_loop phone [] = None"
| "find_phone_loop phone (p # ps) = (if p = phone then Some p else find_phone_loop phone ps)"

definition find_phone :: "str \<Rightarrow> Record \<Rightarrow> str option" where
  "find_phone phone r = find_phone_loop phone (phones r)"

text \<open>\<open>Record.__str__\<close>.\<close>

definition Record_str :: "platform \<Rightarrow> Record \<Rightarrow> str" where
  "Record_str P r =
     (let birthday_str = (case birthday r of
                            Some d \<Rightarrow> strftime P d
                          | None \<Rightarrow> lit ''no birthday record'')
      in lit ''Contact name: '' @ capitalize P (name r) @ lit '', Phones: '' @
         join (lit '', '') (phones r) @ lit '', Birthday: '' @ birthday_str)"

section \<open>AddressBook\<close>

text \<open>
  \<open>AddressBook\<close> is a \<open>UserDict\<close>: its \<open>data\<close> is a dictionary, which keeps its keys in
  the order of their first insertion. It is modelled as an association list in that
  order: assigning to a key replaces the value in place or appends a new pair.
\<close>

type_synonym AddressBook = "(str \<times> Record) list"

definition add_record :: "Record \<Rightarrow> AddressBook \<Rightarrow> AddressBook" where
  "add_record r book = AList.update (name r) r book"

text \<open>\<open>self.data.pop(name)\<close>: the record removed and the book without it, or \<open>KeyError\<close>.\<close>

definition delete :: "str \<Rightarrow> AddressBook \<Rightarrow> exn + (Record \<times> AddressBook)" where
  "delete n book =
     (case map_of book n of
        None \<Rightarrow> Inl (KeyError n)
      | Some r \<Rightarrow> Inr (r, AList.delete n book))"

definition find :: "str \<Rightarrow> AddressBook \<Rightarrow> Record option" where
  "find n book = map_of book n"

text \<open>Lines 156 to 159: the birthday in the year of \<open>today\<close>, or in the next year when
  that moment lies before \<open>today\<close>.\<close>

definition next_birthday :: "datetime \<Rightarrow> datetime \<Rightarrow> exn + datetime" where
  "next_birthday today b =
     (case replace_year (year today) b of
        Inl e \<Rightarrow> Inl e
      | Inr birthday_this_year \<Rightarrow>
          if dt_less birthday_this_year today then replace_year (year today + 1) b
          else Inr birthday_this_year)"

text \<open>Lines 164 to 166: the loop that moves a weekend date forward by \<open>replace(day=day + 1)\<close>.\<close>

function adjust_weekend :: "datetime \<Rightarrow> exn + datetime" where
  "adjust_weekend d =
     (if weekday d > 4
      then (case replace_day (day d + 1) d of
              Inl e \<Rightarrow> Inl e
            | Inr d' \<Rightarrow> adjust_weekend d')
      else Inr d)"
  by pat_completeness auto
termination
  by (relation "measure (\<lambda>d. nat (32 - day d))")
     (auto simp: replace_day_def check_date_fields_def days_in_month_def split: if_splits)

declare adjust_weekend.simps [simp del]

text \<open>The body of the loop over the records: the entry the record adds to the result,
  if any. An entry is the pair of its \<open>"name"\<close> and its \<open>"congratulation_date"\<close>.\<close>

definition upcoming_entry :: "platform \<Rightarrow> datetime \<Rightarrow> Record \<Rightarrow> exn + (str \<times> str) option" where
  "upcoming_entry P today r =
     (case birthday r of
        None \<Rightarrow> Inr None
      | Some b \<Rightarrow>
          (case next_birthday today b of
             Inl e \<Rightarrow> Inl e
           | Inr birthday_this_year \<Rightarrow>
               (let days_until_birthday = timedelta_days birthday_this_year today in
                if 0 \<le> days_until_birthday \<and> days_until_birthday \<le> 7
                then (case adjust_weekend birthday_this_year of
                        Inl e \<Rightarrow> Inl e
                      | Inr congratulation \<Rightarrow> Inr (Some (name r, strftime P congratulation)))
                else Inr None)))"

fun upcoming_loop ::
  "platform \<Rightarrow> datetime \<Rightarrow> Record list \<Rightarrow> (str \<times> str) list \<Rightarrow> exn + (str \<times> str) list" where
  "upcoming_loop P today [] upcoming_birthdays = Inr upcoming_birthdays"
| "upcoming_loop P today (r # rs) upcoming_birthdays =
     (case upcoming_entry P today r of
        Inl e \<Rightarrow> Inl e
      | Inr None \<Rightarrow> upcoming_loop P today rs upcoming_birthdays
      | Inr (Some entry) \<Rightarrow> upcoming_loop P today rs (upcoming_birthdays @ [entry]))"

text \<open>\<open>get_upcoming_birthdays\<close>, with the value of \<open>datetime.today()\<close> as an argument.\<close>

definition get_upcoming_birthdays ::
  "platform \<Rightarrow> datetime \<Rightarrow> AddressBook \<Rightarrow> exn + (str \<times> str) list" where
  "get_upcoming_birthdays P today book = upcoming_loop P today (map snd book) []"

section \<open>Command handlers\<close>

text \<open>
  What a decorated function hands back to its caller: a string, the tuple of tokens of
  \<open>parse_input\<close>, or \<open>None\<close>.
\<close>

datatype pyval = PyStr str | PyTuple "str list" | PyNone

text \<open>
  The decorator \<open>input_error\<close>, applied to the outcome of the wrapped call. An
  \<open>IndexError\<close> whose message is none of the three listed falls through the
  \<open>if\<close>/\<open>elif\<close> chain, and \<open>inner\<close> ends without a \<open>return\<close>.
\<close>

definition input_error :: "exn + pyval \<Rightarrow> pyval" where
  "input_error outcome =
     (case outcome of
        Inr v \<Rightarrow> v
      | Inl (KeyError k) \<Rightarrow> PyStr (lit ''Contact not found.'')
      | Inl (ValueError ve) \<Rightarrow> PyStr ve
      | Inl (IndexError ie) \<Rightarrow>
          (if ie = lit ''Please enter a name.'' then PyStr ie
           else if ie = lit ''Please enter a name and phone number.'' then PyStr ie
           else if ie = lit ''Please enter name, old phone, and new phone.'' then PyStr ie
           else PyNone))"

text \<open>\<open>str.split()\<close> with no separator: the maximal runs of non-blank characters.\<close>

fun split_aux :: "platform \<Rightarrow> str \<Rightarrow> str \<Rightarrow> str list" where
  "split_aux P cur [] = (if cur = [] then [] else [cur])"
| "split_aux P cur (c # cs) =
     (if isspace_char P c then (if cur = [] then split_aux P [] cs else cur # split_aux P [] cs)
      else split_aux P (cur @ [c]) cs)"

definition split :: "platform \<Rightarrow> str \<Rightarrow> str list" where
  "split P s = split_aux P [] s"

definition strip :: "platform \<Rightarrow> str \<Rightarrow> str" where
  "strip P s = rev (dropWhile (isspace_char P) (rev (dropWhile (isspace_char P) s)))"

definition parse_input_body :: "platform \<Rightarrow> str \<Rightarrow> exn + pyval" where
  "parse_input_body P user_input =
     (case split P user_input of
        [] \<Rightarrow>
          Inl (ValueError (lit ''not enough values to unpack (expected at least 1, got 0)''))
      | cmd # args \<Rightarrow> Inr (PyTuple (lower P (strip P cmd) # map (lower P) args)))"

definition parse_input :: "platform \<Rightarrow> str \<Rightarrow> pyval" where
  "parse_input P user_input = input_error (parse_input_body P user_input)"

text \<open>
  A handler takes the argument tokens and the book, and returns its value together with
  the book as it leaves it. A record found in the book and changed by the handler is
  changed in place, under its key. Each handler is the decorator applied to its body.
\<close>

definition decorated ::
  "(exn + pyval) \<times> AddressBook \<Rightarrow> pyval \<times> AddressBook" where
  "decorated outcome = (input_error (fst outcome), snd outcome)"

definition add_contact_body ::
  "platform \<Rightarrow> str list \<Rightarrow> AddressBook \<Rightarrow> (exn + pyval) \<times> AddressBook" where
  "add_contact_body P args book =
     (case args of
        [n, phone] \<Rightarrow>
          (case (case Record_init P n of Inl e \<Rightarrow> Inl e | Inr r \<Rightarrow> add_phone P phone r) of
             Inl (ValueError ve) \<Rightarrow> (Inr (PyStr ve), book)
           | Inl e \<Rightarrow> (Inl e, book)
           | Inr record \<Rightarrow>
               (case find n book of
                  None \<Rightarrow> (Inr (PyStr (lit ''Contact added.'')), add_record record book)
                | Some existing_record \<Rightarrow>
                    if phone \<notin> set (phones existing_record)
                    then (case add_phone P phone existing_record of
                            Inl e \<Rightarrow> (Inl e, book)
                          | Inr r' \<Rightarrow>
                              (Inr (PyStr (lit ''Contact updated.'')), AList.update n r' book))
                    else (Inr (PyStr (lit ''Phone number already exists for this contact.'')),
                          book)))
      | _ \<Rightarrow> (Inl (IndexError (lit ''Please enter a name and phone number.'')), book))"

definition add_contact :: "platform \<Rightarrow> str list \<Rightarrow> AddressBook \<Rightarrow> pyval \<times> AddressBook" where
  "add_contact P args book = decorated (add_contact_body P args book)"

text \<open>In \<open>delete_contact\<close> the test \<open>record is None\<close> after \<open>book.delete\<close> never holds:
  \<open>pop\<close> returns the record or raises \<open>KeyError\<close>, which the decorator turns into the
  message.\<close>

definition delete_contact_body ::
  "platform \<Rightarrow> str list \<Rightarrow> AddressBook \<Rightarrow> (exn + pyval) \<times> AddressBook" where
  "delete_contact_body P args book =
     (case args of
        [name_input] \<Rightarrow>
          (case Name_init P name_input of
             Inl (ValueError ve) \<Rightarrow> (Inr (PyStr ve), book)
           | Inl e \<Rightarrow> (Inl e, book)
           | Inr n \<Rightarrow>
               (case delete n book of
                  Inl e \<Rightarrow> (Inl e, book)
                | Inr (record, book') \<Rightarrow> (Inr (PyStr (lit ''Contact deleted.'')), book')))
      | _ \<Rightarrow> (Inl (IndexError (lit ''Please enter a name.'')), book))"

definition delete_contact ::
  "platform \<Rightarrow> str list \<Rightarrow> AddressBook \<Rightarrow> pyval \<times> AddressBook" where
  "delete_contact P args book = decorated (delete_contact_body P args book)"

definition remove_contact_phone_body ::
  "platform \<Rightarrow> str list \<Rightarrow> AddressBook \<Rightarrow> (exn + pyval) \<times> AddressBook" where
  "remove_contact_phone_body P args book =
     (case args of
        [n, p] \<Rightarrow>
          (case (case Name_init P n of Inl e \<Rightarrow> Inl e
                 | Inr n' \<Rightarrow>
                     (case Phone_init P p of Inl e \<Rightarrow> Inl e | Inr p' \<Rightarrow> Inr (n', p'))) of
             Inl (ValueError ve) \<Rightarrow> (Inr (PyStr ve), book)
           | Inl e \<Rightarrow> (Inl e, book)
           | Inr (n', phone) \<Rightarrow>
               (case find n' book of
                  None \<Rightarrow> (Inr (PyStr (lit ''Contact not found.'')), book)
                | Some record \<Rightarrow>
                    if phone \<notin> set (phones record)
                    then (Inr (PyStr (lit ''Phone number not found in contact'' @ apostrophe @
                                        lit ''s phones.'')), book)
                    else (Inr (PyStr (lit ''Phone removed.'')),
                          AList.update n' (remove_phone phone record) book)))
      | _ \<Rightarrow> (Inl (IndexError (lit ''Please enter a name and phone number.'')), book))"

definition remove_contact_phone ::
  "platform \<Rightarrow> str list \<Rightarrow> AddressBook \<Rightarrow> pyval \<times> AddressBook" where
  "remove_contact_phone P args book = decorated (remove_contact_phone_body P args book)"

definition change_contact_body ::
  "platform \<Rightarrow> str list \<Rightarrow> AddressBook \<Rightarrow> (exn + pyval) \<times> AddressBook" where
  "change_contact_body P args book =
     (case args of
        [n, old, new] \<Rightarrow>
          (case (case Name_init P n of Inl e \<Rightarrow> Inl e
                 | Inr n' \<Rightarrow>
                     (case Phone_init P old of Inl e \<Rightarrow> Inl e
                      | Inr old' \<Rightarrow>
                          (case Phone_init P new of Inl e \<Rightarrow> Inl e
                           | Inr new' \<Rightarrow> Inr (n', old', new')))) of
             Inl (ValueError ve) \<Rightarrow> (Inr (PyStr ve), book)
           | Inl e \<Rightarrow> (Inl e, book)
           | Inr (n', old_phone, new_phone) \<Rightarrow>
               (case find n' book of
                  None \<Rightarrow> (Inr (PyStr (lit ''Contact not found.'')), book)
                | Some record \<Rightarrow>
                    if old_phone \<notin> set (phones record)
                    then (Inr (PyStr (lit ''Old phone number not found in contact'' @
                                        apostrophe @ lit ''s phones.'')), book)
                    else (Inr (PyStr (lit ''Contact changed.'')),
                          AList.update n' (edit_phone old_phone new_phone record) book)))
      | _ \<Rightarrow> (Inl (IndexError (lit ''Please enter name, old phone, and new phone.'')), book))"

definition change_contact ::
  "platform \<Rightarrow> str list \<Rightarrow> AddressBook \<Rightarrow> pyval \<times> AddressBook" where
  "change_contact P args book = decorated (change_contact_body P args book)"

definition get_contact_body ::
  "platform \<Rightarrow> str list \<Rightarrow> AddressBook \<Rightarrow> (exn + pyval) \<times> AddressBook" where
  "get_contact_body P args book =
     (case args of
        [n] \<Rightarrow>
          (case Name_init P n of
             Inl (ValueError ve) \<Rightarrow> (Inr (PyStr ve), book)
           | Inl e \<Rightarrow> (Inl e, book)
           | Inr n' \<Rightarrow>
               (case find n' book of
                  None \<Rightarrow> (Inr (PyStr (lit ''Contact not found.'')), book)
                | Some record \<Rightarrow>
                    (Inr (PyStr (capitalize P (name record) @ apostrophe @ lit ''s phones: '' @
                                   join (lit '', '') (phones record) @ lit ''.'')), book)))
      | _ \<Rightarrow> (Inl (IndexError (lit ''Please enter a name.'')), book))"

definition get_contact :: "platform \<Rightarrow> str list \<Rightarrow> AddressBook \<Rightarrow> pyval \<times> AddressBook" where
  "get_contact P args book = decorated (get_contact_body P args book)"

definition get_all_contacts :: "platform \<Rightarrow> AddressBook \<Rightarrow> pyval" where
  "get_all_contacts P book =
     input_error
       (if book = [] then Inr (PyStr (lit ''No contacts found.''))
        else Inr (PyStr (join newline (map (\<lambda>kv. Record_str P (snd kv)) book))))"

definition add_birthday_body ::
  "platform \<Rightarrow> str list \<Rightarrow> AddressBook \<Rightarrow> (exn + pyval) \<times> AddressBook" where
  "add_birthday_body P args book =
     (case args of
        [n, b] \<Rightarrow>
          (case (case Name_init P n of Inl e \<Rightarrow> Inl e
                 | Inr n' \<Rightarrow>
                     (case Birthday_init P b of Inl e \<Rightarrow> Inl e | Inr d \<Rightarrow> Inr (n', d))) of
             Inl (ValueError ve) \<Rightarrow> (Inr (PyStr ve), book)
           | Inl e \<Rightarrow> (Inl e, book)
           | Inr (n', d) \<Rightarrow>
               (case find n' book of
                  None \<Rightarrow> (Inr (PyStr (lit ''Contact not found.'')), book)
                | Some record \<Rightarrow>
                    (case Record_add_birthday P (strftime P d) record of
                       Inl e \<Rightarrow> (Inl e, book)
                     | Inr r' \<Rightarrow>
                         (Inr (PyStr (lit ''Birthday added.'')), AList.update n' r' book))))
      | _ \<Rightarrow>
          (Inl (IndexError (lit ''Please enter a name and birthday in the format DD.MM.YYYY.'')),
           book))"

definition add_birthday :: "platform \<Rightarrow> str list \<Rightarrow> AddressBook \<Rightarrow> pyval \<times> AddressBook" where
  "add_birthday P args book = decorated (add_birthday_body P args book)"

definition show_birthday_body ::
  "platform \<Rightarrow> str list \<Rightarrow> AddressBook \<Rightarrow> (exn + pyval) \<times> AddressBook" where
  "show_birthday_body P args book =
     (case args of
        [n] \<Rightarrow>
          (case Name_init P n of
             Inl (ValueError ve) \<Rightarrow> (Inr (PyStr ve), book)
           | Inl e \<Rightarrow> (Inl e, book)
           | Inr n' \<Rightarrow>
               (case find n' book of
                  None \<Rightarrow> (Inr (PyStr (lit ''Contact not found.'')), book)
                | Some record \<Rightarrow>
                    (case birthday record of
                       Some d \<Rightarrow>
                         (Inr (PyStr (capitalize P n' @ apostrophe @ lit ''s day of birth is '' @
                                        strftime P d @ lit ''.'')), book)
                     | None \<Rightarrow>
                         (Inr (PyStr (capitalize P n' @ lit '' has no birthday record.'')),
                          book))))
      | _ \<Rightarrow> (Inl (IndexError (lit ''Please enter a name.'')), book))"

definition show_birthday ::
  "platform \<Rightarrow> str list \<Rightarrow> AddressBook \<Rightarrow> pyval \<times> AddressBook" where
  "show_birthday P args book = decorated (show_birthday_body P args book)"

text \<open>\<open>birthdays\<close>, with the value of \<open>datetime.today()\<close> as an argument.\<close>

definition birthdays :: "platform \<Rightarrow> datetime \<Rightarrow> AddressBook \<Rightarrow> pyval" where
  "birthdays P today book =
     input_error
       (case get_upcoming_birthdays P today book of
          Inl e \<Rightarrow> Inl e
        | Inr upcoming_birthdays \<Rightarrow>
            if upcoming_birthdays = [] then Inr (PyStr (lit ''No upcoming birthdays.''))
            else Inr (PyStr (join newline
                   (map (\<lambda>b. capitalize P (fst b) @ apostrophe @ lit ''s birthday is on '' @
                              snd b @ lit ''.'')
                      upcoming_birthdays))))"

section \<open>Persistence\<close>

text \<open>
  Modelled from the spec: the library \<open>pickle\<close> and the files of the operating system,
  which \<open>save_data\<close> and \<open>load_data\<close> call and the sources do not hold. The specification
  has the persisted file contain a full snapshot of the entity graph of the Address Book
  (the mapping, all records and their fields), in a format that is free as long as
  saving and loading give all entity data back exactly; the documentation of \<open>pickle\<close>
  has \<open>dump\<close> write the pickled representation of an object and \<open>load\<close> return the
  object hierarchy that the representation specifies. So the content of a file is
  either the snapshot of a book or something that is no pickle of a book, and the files
  are a map from file names to contents. Opening a file with \<open>"wb"\<close> creates it or
  replaces its content.
\<close>

datatype file_content = Snapshot AddressBook | Not_a_pickle

type_synonym file_store = "str \<rightharpoonup> file_content"

datatype load_error = UnpicklingError

definition pickle_dump :: "AddressBook \<Rightarrow> file_content" where
  "pickle_dump book = Snapshot book"

definition pickle_load :: "file_content \<Rightarrow> load_error + AddressBook" where
  "pickle_load content =
     (case content of
        Snapshot book \<Rightarrow> Inr book
      | Not_a_pickle \<Rightarrow> Inl UnpicklingError)"

text \<open>\<open>save_data\<close> and \<open>load_data\<close> (lines 374 to 389): the files after the save, and the
  book loaded or the error that ends the program. A missing file gives the empty book.\<close>

definition save_data :: "AddressBook \<Rightarrow> str \<Rightarrow> file_store \<Rightarrow> file_store" where
  "save_data book filename files = files(filename \<mapsto> pickle_dump book)"

definition load_data :: "str \<Rightarrow> file_store \<Rightarrow> load_error + AddressBook" where
  "load_data filename files =
     (case files filename of
        None \<Rightarrow> Inr []
      | Some content \<Rightarrow> pickle_load content)"

text \<open>The file name both functions take when the caller gives none.\<close>

definition default_filename :: str where
  "default_filename = lit ''addressbook.pkl''"

section \<open>Notions the properties are stated with\<close>

text \<open>
  A platform for the closed examples. Beyond ASCII it has the letters of Latin-1 as
  letters and the rest of its tables empty; the examples use those tables on ASCII
  strings only, on which every platform agrees.
\<close>

definition example_platform :: platform where
  "example_platform =
     \<lparr>category_beyond =
        (\<lambda>c. if c = 170 \<or> c = 181 \<or> c = 186 \<or> (192 \<le> c \<and> c \<le> 255 \<and> c \<noteq> 215 \<and> c \<noteq> 247)
             then Letter else Other),
      digit_beyond = (\<lambda>c. False),
      space_beyond = (\<lambda>c. False),
      decimal_beyond = (\<lambda>c. None),
      lower_beyond = (\<lambda>s. s),
      capitalize_beyond = (\<lambda>s. s),
      pad_year = False\<rparr>"

text \<open>The invariant of the book: every key is the name of the record stored under it.\<close>

definition book_inv :: "AddressBook \<Rightarrow> bool" where
  "book_inv book = list_all (\<lambda>kv. fst kv = name (snd kv)) book"

text \<open>
  The four operations of \<open>AddressBook\<close> and the book each leaves behind. \<open>delete\<close> of a
  missing name raises and leaves the dictionary as it was; \<open>find\<close> and
  \<open>get_upcoming_birthdays\<close> assign to nothing, they only read \<open>self.data\<close>.
\<close>

datatype book_op =
  Add_record Record
| Delete str
| Find str
| Get_upcoming_birthdays datetime

fun book_after :: "book_op \<Rightarrow> AddressBook \<Rightarrow> AddressBook" where
  "book_after (Add_record r) book = add_record r book"
| "book_after (Delete n) book =
     (case delete n book of Inl e \<Rightarrow> book | Inr (r, book') \<Rightarrow> book')"
| "book_after (Find n) book = book"
| "book_after (Get_upcoming_birthdays today) book = book"

text \<open>The specification's reading of \<open>edit_phone\<close>: only the first phone equal to \<open>old\<close>
  is replaced.\<close>

fun replace_first :: "str \<Rightarrow> str \<Rightarrow> str list \<Rightarrow> str list" where
  "replace_first old new [] = []"
| "replace_first old new (p # ps) =
     (if p = old then new # ps else p # replace_first old new ps)"

text \<open>The time of day of a \<open>datetime\<close> in microseconds, the ranges of its four time
  fields, and the ranges of its three date fields.\<close>

definition time_of_day :: "datetime \<Rightarrow> int" where
  "time_of_day d = ((hour d * 60 + minute d) * 60 + second d) * 1000000 + microsecond d"

definition valid_time :: "datetime \<Rightarrow> bool" where
  "valid_time d =
     (0 \<le> hour d \<and> hour d < 24 \<and> 0 \<le> minute d \<and> minute d < 60 \<and>
      0 \<le> second d \<and> second d < 60 \<and> 0 \<le> microsecond d \<and> microsecond d < 1000000)"

definition valid_date :: "datetime \<Rightarrow> bool" where
  "valid_date d =
     (1 \<le> year d \<and> year d \<le> 9999 \<and> 1 \<le> month d \<and> month d \<le> 12 \<and>
      1 \<le> day d \<and> day d \<le> days_in_month (year d) (month d))"

section \<open>Auxiliary facts\<close>

lemma lit_eq_iff [simp]: "lit a = lit b \<longleftrightarrow> a = b"
  by (simp add: lit_def inj_map_eq_map inj_on_def)

lemma edit_phone_loop_from:
  "i \<le> length ps \<Longrightarrow>
   edit_phone_loop i old new ps = take i ps @ map (\<lambda>p. if p = old then new else p) (drop i ps)"
proof (induction i old new ps rule: edit_phone_loop.induct)
  case (1 i old new ps)
  show ?case
  proof (cases "i < length ps")
    case False
    with 1 show ?thesis by (subst edit_phone_loop.simps) simp
  next
    case True
    then have d: "drop i ps = ps ! i # drop (Suc i) ps"
      by (simp add: Cons_nth_drop_Suc)
    show ?thesis
    proof (cases "ps ! i = old")
      case eq: True
      have "edit_phone_loop i old new ps = edit_phone_loop (Suc i) old new (ps[i := new])"
        using True eq by (subst edit_phone_loop.simps) simp
      also have "\<dots> = take (Suc i) (ps[i := new]) @
          map (\<lambda>p. if p = old then new else p) (drop (Suc i) (ps[i := new]))"
        using 1(1)[OF True eq] True by simp
      also have "\<dots> = take i ps @ map (\<lambda>p. if p = old then new else p) (drop i ps)"
        using True eq d by (simp add: take_Suc_conv_app_nth)
      finally show ?thesis .
    next
      case neq: False
      have "edit_phone_loop i old new ps = edit_phone_loop (Suc i) old new ps"
        using True neq by (subst edit_phone_loop.simps) simp
      also have "\<dots> = take (Suc i) ps @ map (\<lambda>p. if p = old then new else p) (drop (Suc i) ps)"
        using 1(2)[OF True neq] True by simp
      also have "\<dots> = take i ps @ map (\<lambda>p. if p = old then new else p) (drop i ps)"
        using True neq d by (simp add: take_Suc_conv_app_nth)
      finally show ?thesis .
    qed
  qed
qed

lemma edit_phone_loop_all:
  "edit_phone_loop 0 old new ps = map (\<lambda>p. if p = old then new else p) ps"
  using edit_phone_loop_from [of 0 ps old new] by simp

lemma map_replace_absent:
  "old \<notin> set ps \<Longrightarrow> map (\<lambda>p. if p = old then new else p) ps = ps"
  by (induction ps) auto

lemma set_update_subset: "set (AList.update k v al) \<subseteq> insert (k, v) (set al)"
  by (induction al) auto

lemma book_inv_add_record: "book_inv book \<Longrightarrow> book_inv (add_record r book)"
  using set_update_subset[of "name r" r book]
  by (auto simp: book_inv_def add_record_def list_all_iff)

lemma book_inv_delete: "book_inv book \<Longrightarrow> delete n book = Inr (r, book') \<Longrightarrow> book_inv book'"
  by (auto simp: book_inv_def delete_def list_all_iff AList.delete_eq split: option.splits)

subsection \<open>The loop of \<open>remove_phone\<close>\<close>

lemma remove_phone_loop_stop:
  "\<not> i < length ps \<Longrightarrow> remove_phone_loop i phone ps = ps"
  by (subst remove_phone_loop.simps) simp

lemma remove_phone_loop_hit:
  "i < length ps \<Longrightarrow> ps ! i = phone \<Longrightarrow>
   remove_phone_loop i phone ps = remove_phone_loop (Suc i) phone (remove_at i ps)"
  by (subst remove_phone_loop.simps) simp

lemma remove_phone_loop_miss:
  "i < length ps \<Longrightarrow> ps ! i \<noteq> phone \<Longrightarrow>
   remove_phone_loop i phone ps = remove_phone_loop (Suc i) phone ps"
  by (subst remove_phone_loop.simps) simp

lemma remove_phone_loop_absent:
  "phone \<notin> set (drop i ps) \<Longrightarrow> remove_phone_loop i phone ps = ps"
proof (induction i phone ps rule: remove_phone_loop.induct)
  case (1 i phone ps)
  show ?case
  proof (cases "i < length ps")
    case False
    then show ?thesis by (rule remove_phone_loop_stop)
  next
    case True
    then have d: "drop i ps = ps ! i # drop (Suc i) ps"
      by (simp add: Cons_nth_drop_Suc)
    with 1(3) have ne: "ps ! i \<noteq> phone" and rest: "phone \<notin> set (drop (Suc i) ps)" by auto
    have "remove_phone_loop i phone ps = remove_phone_loop (Suc i) phone ps"
      using True ne by (rule remove_phone_loop_miss)
    also have "\<dots> = ps" using True ne rest by (rule 1(2))
    finally show ?thesis .
  qed
qed

lemma drop_remove_at:
  "i < length ps \<Longrightarrow> drop (Suc i) (remove_at i ps) = drop (Suc (Suc i)) ps"
  by (simp add: remove_at_def min_def)

lemma remove_phone_loop_once:
  "i \<le> length ps \<Longrightarrow> count_list (drop i ps) phone \<le> 1 \<Longrightarrow>
   remove_phone_loop i phone ps = take i ps @ remove1 phone (drop i ps)"
proof (induction i phone ps rule: remove_phone_loop.induct)
  case (1 i phone ps)
  show ?case
  proof (cases "i < length ps")
    case False
    with 1(3) have "i = length ps" by simp
    with False show ?thesis by (simp add: remove_phone_loop_stop)
  next
    case True
    then have d: "drop i ps = ps ! i # drop (Suc i) ps"
      by (simp add: Cons_nth_drop_Suc)
    show ?thesis
    proof (cases "ps ! i = phone")
      case eq: True
      with 1(4) d have "count_list (drop (Suc i) ps) phone = 0" by simp
      then have absent: "phone \<notin> set (drop (Suc i) ps)"
        by (simp add: count_list_0_iff)
      have "set (drop (Suc (Suc i)) ps) \<subseteq> set (drop (Suc i) ps)"
        by (rule set_drop_subset_set_drop) simp
      with absent have "phone \<notin> set (drop (Suc i) (remove_at i ps))"
        using True by (auto simp: drop_remove_at)
      then have "remove_phone_loop (Suc i) phone (remove_at i ps) = remove_at i ps"
        by (rule remove_phone_loop_absent)
      then have "remove_phone_loop i phone ps = remove_at i ps"
        using True eq by (simp add: remove_phone_loop_hit)
      also have "\<dots> = take i ps @ remove1 phone (drop i ps)"
        using eq d by (simp add: remove_at_def)
      finally show ?thesis .
    next
      case neq: False
      with 1(4) d have c: "count_list (drop (Suc i) ps) phone \<le> 1" by simp
      have "remove_phone_loop i phone ps = remove_phone_loop (Suc i) phone ps"
        using True neq by (rule remove_phone_loop_miss)
      also have "\<dots> = take (Suc i) ps @ remove1 phone (drop (Suc i) ps)"
        using True neq _ c by (rule 1(2)) (use True in simp)
      also have "\<dots> = take i ps @ remove1 phone (drop i ps)"
        using True neq d by (simp add: take_Suc_conv_app_nth)
      finally show ?thesis .
    qed
  qed
qed

subsection \<open>The calendar\<close>

lemma div_step:
  fixes y k :: int
  assumes "0 < k"
  shows "y div k - (y - 1) div k = (if y mod k = 0 then 1 else 0)"
proof -
  define q where "q = y div k"
  define r where "r = y mod k"
  have y: "y = k * q + r" and r0: "0 \<le> r" and rk: "r < k"
    using assms by (simp_all add: q_def r_def)
  show ?thesis
  proof (cases "r = 0")
    case True
    have "y - 1 = k * (q - 1) + (k - 1)" using y True by (simp add: algebra_simps)
    then have "(y - 1) div k = q - 1"
      by (rule int_div_pos_eq) (use assms in simp_all)
    with True show ?thesis by (simp add: q_def r_def)
  next
    case False
    have "y - 1 = k * q + (r - 1)" using y by simp
    then have "(y - 1) div k = q"
      by (rule int_div_pos_eq) (use False r0 rk in simp_all)
    with False show ?thesis by (simp add: q_def r_def)
  qed
qed

lemma days_before_year_Suc:
  "days_before_year (y + 1) = days_before_year y + 365 + (if is_leap y then 1 else 0)"
proof -
  define a4 where "a4 = y div 4"
  define b4 where "b4 = (y - 1) div 4"
  define a100 where "a100 = y div 100"
  define b100 where "b100 = (y - 1) div 100"
  define a400 where "a400 = y div 400"
  define b400 where "b400 = (y - 1) div 400"
  have a: "a4 - b4 = (if 4 dvd y then 1 else 0)"
    unfolding a4_def b4_def using div_step[of 4 y] by (simp add: mod_eq_0_iff_dvd)
  have b: "a100 - b100 = (if 100 dvd y then 1 else 0)"
    unfolding a100_def b100_def using div_step[of 100 y] by (simp add: mod_eq_0_iff_dvd)
  have c: "a400 - b400 = (if 400 dvd y then 1 else 0)"
    unfolding a400_def b400_def using div_step[of 400 y] by (simp add: mod_eq_0_iff_dvd)
  have d: "100 dvd y \<Longrightarrow> 4 dvd y" using dvd_trans[of 4 100 y] by simp
  have e: "400 dvd y \<Longrightarrow> 100 dvd y" using dvd_trans[of 100 400 y] by simp
  have l: "is_leap y = (4 dvd y \<and> (\<not> 100 dvd y \<or> 400 dvd y))"
    by (simp add: is_leap_def mod_eq_0_iff_dvd)
  have n: "days_before_year (y + 1) = y * 365 + a4 - a100 + a400"
    by (simp add: days_before_year_def Let_def a4_def a100_def a400_def)
  have o: "days_before_year y = (y - 1) * 365 + b4 - b100 + b400"
    by (simp add: days_before_year_def Let_def b4_def b100_def b400_def)
  have "days_before_year (y + 1) - days_before_year y =
      365 + (a4 - b4) - (a100 - b100) + (a400 - b400)"
    unfolding n o by (simp add: algebra_simps)
  also have "\<dots> = 365 + (if is_leap y then 1 else 0)"
  proof -
    define p4 where "p4 = (4 dvd y)"
    define p100 where "p100 = (100 dvd y)"
    define p400 where "p400 = (400 dvd y)"
    have imp: "p100 \<longrightarrow> p4" "p400 \<longrightarrow> p100"
      using d e by (simp_all add: p4_def p100_def p400_def)
    have "365 + (if p4 then 1 else 0) - (if p100 then 1 else 0) + (if p400 then 1 else 0) =
        365 + (if p4 \<and> (\<not> p100 \<or> p400) then 1 else (0::int))"
      using imp by (cases p4; cases p100; cases p400) simp_all
    then show ?thesis
      unfolding a b c l p4_def p100_def p400_def .
  qed
  finally show ?thesis by simp
qed

lemma toordinal_next_year: "toordinal d + 365 \<le> toordinal (d\<lparr>year := year d + 1\<rparr>)"
  by (simp add: toordinal_def days_before_year_Suc days_before_month_def)

lemma micros_split: "micros d = toordinal d * 86400000000 + time_of_day d"
  by (simp add: micros_def time_of_day_def algebra_simps)

lemma time_of_day_bounds:
  assumes "valid_time d"
  shows "0 \<le> time_of_day d" and "time_of_day d < 86400000000"
proof -
  from assms have h: "0 \<le> hour d" "hour d \<le> 23" and m: "0 \<le> minute d" "minute d \<le> 59"
    and s: "0 \<le> second d" "second d \<le> 59"
    and u: "0 \<le> microsecond d" "microsecond d \<le> 999999"
    by (simp_all add: valid_time_def)
  show "0 \<le> time_of_day d" using h m s u by (simp add: time_of_day_def)
  have "hour d * 60 + minute d \<le> 23 * 60 + 59" using h m by simp
  then have "(hour d * 60 + minute d) * 60 + second d \<le> (23 * 60 + 59) * 60 + 59"
    using s by simp
  then have "((hour d * 60 + minute d) * 60 + second d) * 1000000
      \<le> ((23 * 60 + 59) * 60 + 59) * 1000000"
    by simp
  then show "time_of_day d < 86400000000" using u by (simp add: time_of_day_def)
qed

lemma replace_year_fields: "replace_year y d = Inr d' \<Longrightarrow> d' = d\<lparr>year := y\<rparr>"
  by (auto simp: replace_year_def split: sum.splits)

lemma replace_day_fields: "replace_day n d = Inr d' \<Longrightarrow> d' = d\<lparr>day := n\<rparr>"
  by (auto simp: replace_day_def split: sum.splits)

lemma replace_day_next:
  "valid_date d \<Longrightarrow>
   replace_day (day d + 1) d =
     (if day d + 1 \<le> days_in_month (year d) (month d) then Inr (d\<lparr>day := day d + 1\<rparr>)
      else Inl (ValueError (lit ''day is out of range for month'')))"
  by (simp add: replace_day_def check_date_fields_def valid_date_def)

lemma weekday_next_day: "weekday (d\<lparr>day := day d + 1\<rparr>) = (weekday d + 1) mod 7"
  unfolding weekday_def toordinal_def by (simp add: mod_simps algebra_simps)

lemma adjust_weekend_weekday: "\<not> weekday d > 4 \<Longrightarrow> adjust_weekend d = Inr d"
  by (subst adjust_weekend.simps) simp

lemma adjust_weekend_weekend:
  "weekday d > 4 \<Longrightarrow>
   adjust_weekend d =
     (case replace_day (day d + 1) d of Inl e \<Rightarrow> Inl e | Inr d' \<Rightarrow> adjust_weekend d')"
  by (subst adjust_weekend.simps) simp

section \<open>The scenarios of the specification\<close>

text \<open>The four command scenarios of the specification, run on the model.\<close>

lemma scenario_add_twice:
  "add_contact P [lit ''john'', lit ''1234567890''] [] =
     (PyStr (lit ''Contact added.''),
      [(lit ''john'', \<lparr>name = lit ''john'', phones = [lit ''1234567890''], birthday = None\<rparr>)]) \<and>
   fst (add_contact P [lit ''john'', lit ''1234567890'']
          (snd (add_contact P [lit ''john'', lit ''1234567890''] [])))
   = PyStr (lit ''Phone number already exists for this contact.'')"
  by code_simp

lemma scenario_birthday:
  "fst (show_birthday P [lit ''john'']
     (snd (add_birthday P [lit ''john'', lit ''01.01.2030'']
       (snd (add_contact P [lit ''john'', lit ''1234567890''] [])))))
   = PyStr (lit ''John'' @ apostrophe @ lit ''s day of birth is 01.01.2030.'')"
  by code_simp

lemma scenario_delete_absent:
  "delete_contact P [lit ''mary''] [] = (PyStr (lit ''Contact not found.''), [])"
  by code_simp

lemma scenario_change:
  "fst (change_contact P [lit ''john'', lit ''1234567890'', lit ''0987654321'']
          (snd (add_contact P [lit ''john'', lit ''1234567890''] [])))
   = PyStr (lit ''Contact changed.'') \<and>
   fst (get_contact P [lit ''john'']
          (snd (change_contact P [lit ''john'', lit ''1234567890'', lit ''0987654321'']
             (snd (add_contact P [lit ''john'', lit ''1234567890''] [])))))
   = PyStr (lit ''John'' @ apostrophe @ lit ''s phones: 0987654321.'')"
  by code_simp

section \<open>Upcoming birthdays\<close>

text \<open>
  What the loop body does with one record, once the next birthday \<open>n\<close> is known: the
  record is kept exactly when the whole days from \<open>today\<close> to \<open>n\<close> are between 0 and 7,
  and a kept record is reported on the date the weekend loop ends on, if it ends.
\<close>

lemma upcoming_entry_window:
  "birthday r = Some b \<Longrightarrow> next_birthday today b = Inr n \<Longrightarrow>
   upcoming_entry P today r =
     (if 0 \<le> timedelta_days n today \<and> timedelta_days n today \<le> 7
      then (case adjust_weekend n of
              Inl e \<Rightarrow> Inl e
            | Inr c \<Rightarrow> Inr (Some (name r, strftime P c)))
      else Inr None)"
  by (simp add: upcoming_entry_def Let_def)

text \<open>When the call returns a list, the list holds the entries of the records, in the
  order of the book.\<close>

lemma upcoming_loop_result:
  "upcoming_loop P today rs acc = Inr out \<Longrightarrow>
   out = acc @ List.map_filter
                 (\<lambda>r. case upcoming_entry P today r of Inl e \<Rightarrow> None | Inr x \<Rightarrow> x) rs"
proof (induction rs arbitrary: acc)
  case Nil
  then show ?case by (simp add: map_filter_simps)
next
  case (Cons r rs)
  show ?case
  proof (cases "upcoming_entry P today r")
    case (Inl e)
    with Cons.prems show ?thesis by simp
  next
    case (Inr x)
    show ?thesis
    proof (cases x)
      case None
      with Inr Cons.prems have "upcoming_loop P today rs acc = Inr out" by simp
      from Cons.IH[OF this] Inr None show ?thesis by (simp add: map_filter_simps)
    next
      case (Some entry)
      with Inr Cons.prems have "upcoming_loop P today rs (acc @ [entry]) = Inr out" by simp
      from Cons.IH[OF this] Inr Some show ?thesis by (simp add: map_filter_simps)
    qed
  qed
qed

text \<open>
  At any moment after midnight, a record whose birthday falls on today's date adds no
  entry: the birthday of this year lies before \<open>today\<close>, the one of next year is at least
  364 whole days away (or does not exist, and the call raises).
\<close>

lemma birthday_on_todays_date_not_listed:
  assumes b: "birthday r = Some b"
    and mid: "time_of_day b = 0"
    and same: "month b = month today" "day b = day today"
    and vt: "valid_time today" and after: "0 < time_of_day today"
  shows "upcoming_entry P today r = Inr None \<or> (\<exists>e. upcoming_entry P today r = Inl e)"
proof (cases "replace_year (year today) b")
  case (Inl e)
  then show ?thesis using b by (simp add: upcoming_entry_def next_birthday_def)
next
  case (Inr this_year)
  then have ty: "this_year = b\<lparr>year := year today\<rparr>" by (rule replace_year_fields)
  have ord: "toordinal this_year = toordinal today"
    using same by (simp add: ty toordinal_def)
  have tod: "time_of_day this_year = 0"
    using mid by (simp add: ty time_of_day_def)
  have less: "dt_less this_year today"
    using after by (simp add: dt_less_def micros_split ord tod)
  show ?thesis
  proof (cases "replace_year (year today + 1) b")
    case (Inl e)
    then show ?thesis using b Inr less by (simp add: upcoming_entry_def next_birthday_def)
  next
    case next_year: (Inr n)
    then have n: "n = b\<lparr>year := year today + 1\<rparr>" by (rule replace_year_fields)
    have n': "n = this_year\<lparr>year := year this_year + 1\<rparr>" by (simp add: n ty)
    have "toordinal this_year + 365 \<le> toordinal n"
      unfolding n' by (rule toordinal_next_year)
    then have o: "365 \<le> toordinal n - toordinal today" using ord by simp
    have "time_of_day n = 0" using mid by (simp add: n time_of_day_def)
    then have "micros n - micros today =
        (toordinal n - toordinal today) * 86400000000 - time_of_day today"
      by (simp add: micros_split algebra_simps)
    moreover have "365 * 86400000000 \<le> (toordinal n - toordinal today) * 86400000000"
      using o by simp
    ultimately have "8 * 86400000000 \<le> micros n - micros today"
      using time_of_day_bounds(2)[OF vt] by simp
    then have "(8 * 86400000000) div 86400000000
        \<le> (micros n - micros today) div (86400000000::int)"
      by (rule zdiv_mono1) simp
    then have "7 < timedelta_days n today" by (simp add: timedelta_days_def)
    then show ?thesis
      using b Inr less next_year by (simp add: upcoming_entry_def next_birthday_def Let_def)
  qed
qed

text \<open>
  The weekend loop stays in the month it starts in. From a Sunday it moves one day and
  from a Saturday two, when the month has that many days left; otherwise it raises.
\<close>

lemma adjust_weekend_same_month:
  "adjust_weekend d = Inr d' \<Longrightarrow>
   year d' = year d \<and> month d' = month d \<and> day d \<le> day d' \<and> weekday d' \<le> 4"
proof (induction d rule: adjust_weekend.induct)
  case (1 d)
  show ?case
  proof (cases "weekday d > 4")
    case False
    with 1(2) show ?thesis by (simp add: adjust_weekend_weekday)
  next
    case True
    with 1(2) obtain d1 where r: "replace_day (day d + 1) d = Inr d1"
      and a: "adjust_weekend d1 = Inr d'"
      by (auto simp: adjust_weekend_weekend split: sum.splits)
    from replace_day_fields[OF r] have d1: "d1 = d\<lparr>day := day d + 1\<rparr>" .
    from 1(1)[OF True r a] d1 show ?thesis by simp
  qed
qed

lemma adjust_weekend_sunday:
  assumes "valid_date d" "weekday d = 6"
  shows "adjust_weekend d =
     (if day d + 1 \<le> days_in_month (year d) (month d) then Inr (d\<lparr>day := day d + 1\<rparr>)
      else Inl (ValueError (lit ''day is out of range for month'')))"
proof -
  have "weekday (d\<lparr>day := day d + 1\<rparr>) = 0"
    using assms(2) by (simp add: weekday_next_day)
  then have "adjust_weekend (d\<lparr>day := day d + 1\<rparr>) = Inr (d\<lparr>day := day d + 1\<rparr>)"
    by (simp add: adjust_weekend_weekday)
  then show ?thesis
    using assms by (simp add: adjust_weekend_weekend replace_day_next)
qed

lemma adjust_weekend_saturday:
  assumes "valid_date d" "weekday d = 5"
  shows "adjust_weekend d =
     (if day d + 2 \<le> days_in_month (year d) (month d) then Inr (d\<lparr>day := day d + 2\<rparr>)
      else Inl (ValueError (lit ''day is out of range for month'')))"
proof (cases "day d + 1 \<le> days_in_month (year d) (month d)")
  case False
  then show ?thesis
    using assms by (simp add: adjust_weekend_weekend replace_day_next)
next
  case True
  let ?s = "d\<lparr>day := day d + 1\<rparr>"
  have v: "valid_date ?s" using assms(1) True by (simp add: valid_date_def)
  have w: "weekday ?s = 6" using assms(2) by (simp add: weekday_next_day)
  have "adjust_weekend d = adjust_weekend ?s"
    using assms True by (simp add: adjust_weekend_weekend replace_day_next)
  also have "\<dots> =
      (if day ?s + 1 \<le> days_in_month (year ?s) (month ?s) then Inr (?s\<lparr>day := day ?s + 1\<rparr>)
       else Inl (ValueError (lit ''day is out of range for month'')))"
    using v w by (rule adjust_weekend_sunday)
  finally show ?thesis by (simp add: algebra_simps)
qed

text \<open>
  Claim C1: a record whose birthday falls on today's date is in the list of
  \<open>get_upcoming_birthdays\<close>. The code does not do that: on Monday 5 January 2026 at
  12:00 the book holds one contact born on 5 January, and the list is empty. The
  birthday of this year is the midnight that began the day, which lies before
  \<open>today\<close>, so the code moves it to 2027.
\<close>

theorem birthday_today_is_left_out:
  "get_upcoming_birthdays P
     \<lparr>year = 2026, month = 1, day = 5, hour = 12, minute = 0, second = 0, microsecond = 0\<rparr>
     [(lit ''john'', \<lparr>name = lit ''john'', phones = [lit ''1234567890''],
                   birthday = Some (midnight 1990 1 5)\<rparr>)]
   = Inr []"
  by code_simp

text \<open>
  Claim C2: a record whose next birthday is exactly 7 days from now is in the list (and
  one 8 days away is not). The code does not always do that: on Saturday 24 January
  2026 the contact born on 31 January is 7 days away (to the microsecond at 00:00, by
  the calendar at 12:00) and passes the test on the days, and the call raises
  \<open>ValueError\<close> instead of returning a list that holds the contact: 31 January 2026 is
  a Saturday, and the weekend loop asks for day 32.
\<close>

theorem birthday_in_seven_days_raises:
  "get_upcoming_birthdays P (midnight 2026 1 24)
     [(lit ''john'', \<lparr>name = lit ''john'', phones = [lit ''1234567890''],
                   birthday = Some (midnight 1990 1 31)\<rparr>)]
   = Inl (ValueError (lit ''day is out of range for month'')) \<and>
   get_upcoming_birthdays P
     \<lparr>year = 2026, month = 1, day = 24, hour = 12, minute = 0, second = 0, microsecond = 0\<rparr>
     [(lit ''john'', \<lparr>name = lit ''john'', phones = [lit ''1234567890''],
                   birthday = Some (midnight 1990 1 31)\<rparr>)]
   = Inl (ValueError (lit ''day is out of range for month''))"
  by code_simp

text \<open>
  Claim C3: a birthday in the window that lands on a Saturday or Sunday is reported on
  the first weekday on or after it, at the end of a month too. The code does not do
  that: on Wednesday 27 May 2026 the contact born on 30 May (a Saturday) is in the
  window; the loop reaches Sunday 31 May, asks for day 32 and raises \<open>ValueError\<close>, where
  the claim has Monday 1 June. The handler \<open>birthdays\<close> then returns the text of the
  exception.
\<close>

theorem weekend_shift_fails_at_month_end:
  "get_upcoming_birthdays P
     \<lparr>year = 2026, month = 5, day = 27, hour = 12, minute = 0, second = 0, microsecond = 0\<rparr>
     [(lit ''john'', \<lparr>name = lit ''john'', phones = [lit ''1234567890''],
                   birthday = Some (midnight 1990 5 30)\<rparr>)]
   = Inl (ValueError (lit ''day is out of range for month'')) \<and>
   birthdays P
     \<lparr>year = 2026, month = 5, day = 27, hour = 12, minute = 0, second = 0, microsecond = 0\<rparr>
     [(lit ''john'', \<lparr>name = lit ''john'', phones = [lit ''1234567890''],
                   birthday = Some (midnight 1990 5 30)\<rparr>)]
   = PyStr (lit ''day is out of range for month'')"
  by code_simp

section \<open>Argument counts\<close>

text \<open>The handlers whose \<open>IndexError\<close> carries one of the three messages that
  \<open>input_error\<close> lists return that message, and leave the book as it was.\<close>

lemma wrong_count_messages:
  "length args \<noteq> 2 \<Longrightarrow>
     add_contact P args book = (PyStr (lit ''Please enter a name and phone number.''), book)"
  "length args \<noteq> 1 \<Longrightarrow> delete_contact P args book = (PyStr (lit ''Please enter a name.''), book)"
  "length args \<noteq> 2 \<Longrightarrow>
     remove_contact_phone P args book = (PyStr (lit ''Please enter a name and phone number.''), book)"
  "length args \<noteq> 3 \<Longrightarrow>
     change_contact P args book = (PyStr (lit ''Please enter name, old phone, and new phone.''), book)"
  "length args \<noteq> 1 \<Longrightarrow> get_contact P args book = (PyStr (lit ''Please enter a name.''), book)"
  "length args \<noteq> 1 \<Longrightarrow> show_birthday P args book = (PyStr (lit ''Please enter a name.''), book)"
  by (auto simp: add_contact_def add_contact_body_def delete_contact_def
      delete_contact_body_def remove_contact_phone_def remove_contact_phone_body_def
      change_contact_def change_contact_body_def get_contact_def get_contact_body_def
      show_birthday_def show_birthday_body_def decorated_def input_error_def
      split: list.splits)

text \<open>
  Claim C4: a handler called with the wrong number of arguments returns an instructional
  string. \<open>add_birthday\<close> does not: its \<open>IndexError\<close> carries a message that
  \<open>input_error\<close> does not list, so the decorated handler returns \<open>None\<close>, and the book is
  left as it was.
\<close>

theorem add_birthday_wrong_count_returns_None:
  "length args \<noteq> 2 \<Longrightarrow> add_birthday P args book = (PyNone, book)"
  by (auto simp: add_birthday_def add_birthday_body_def decorated_def input_error_def
      split: list.splits)

theorem add_birthday_wrong_count_example:
  "length [lit ''john''] \<noteq> 2 \<and>
   add_birthday example_platform [lit ''john''] [] = (PyNone, [])"
  using add_birthday_wrong_count_returns_None [of "[lit ''john'']" example_platform "[]"]
  by simp

section \<open>Phones of a record\<close>

text \<open>When no phone of the record equals \<open>phone\<close>, \<open>remove_phone\<close> changes nothing; when
  at most one does, it removes that one and nothing else.\<close>

lemma remove_phone_absent:
  "phone \<notin> set (phones r) \<Longrightarrow> remove_phone phone r = r"
  by (simp add: remove_phone_def remove_phone_loop_absent)

lemma remove_phone_at_most_once:
  "count_list (phones r) phone \<le> 1 \<Longrightarrow>
   remove_phone phone r = r\<lparr>phones := remove1 phone (phones r)\<rparr>"
  using remove_phone_loop_once [of 0 "phones r" phone] by (simp add: remove_phone_def)

text \<open>
  Claim C5: \<open>remove_phone(p)\<close> removes exactly the first phone equal to \<open>p\<close> and leaves
  later duplicates in place. The code does not do that: the loop deletes from the list
  it is iterating over and goes on, so with the phones 1111111111, 2222222222,
  1111111111 both copies of 1111111111 go, where removing the first one only would
  leave 2222222222, 1111111111. The commands \<open>add\<close>, \<open>add\<close>, \<open>add\<close>, \<open>change\<close> build
  such a record, and \<open>remove\<close> then leaves one phone.
\<close>

theorem remove_phone_removes_later_duplicate:
  "remove_phone (lit ''1111111111'')
     \<lparr>name = lit ''john'', phones = [lit ''1111111111'', lit ''2222222222'', lit ''1111111111''],
        birthday = None\<rparr>
   = \<lparr>name = lit ''john'', phones = [lit ''2222222222''], birthday = None\<rparr> \<and>
   remove1 (lit ''1111111111'') [lit ''1111111111'', lit ''2222222222'', lit ''1111111111'']
   = [lit ''2222222222'', lit ''1111111111''] \<and>
   remove_contact_phone P [lit ''john'', lit ''1111111111'']
     (snd (change_contact P [lit ''john'', lit ''3333333333'', lit ''1111111111'']
       (snd (add_contact P [lit ''john'', lit ''3333333333'']
         (snd (add_contact P [lit ''john'', lit ''2222222222'']
           (snd (add_contact P [lit ''john'', lit ''1111111111''] []))))))))
   = (PyStr (lit ''Phone removed.''),
      [(lit ''john'', \<lparr>name = lit ''john'', phones = [lit ''2222222222''], birthday = None\<rparr>)])"
  by code_simp

text \<open>
  Claim C6, as amended: \<open>edit_phone(old, new)\<close> replaces every phone of the record equal
  to \<open>old\<close> by \<open>new\<close>, not the first one only; the other phones, their order, the name and
  the birthday stay, and the record is unchanged when no phone equals \<open>old\<close>.
\<close>

theorem edit_phone_replaces_every_occurrence:
  "edit_phone old new r = r\<lparr>phones := map (\<lambda>p. if p = old then new else p) (phones r)\<rparr> \<and>
   (old \<notin> set (phones r) \<longrightarrow> edit_phone old new r = r)"
  by (simp add: edit_phone_def edit_phone_loop_all map_replace_absent)

theorem edit_phone_replaces_every_occurrence_example:
  "lit ''1111111111'' \<notin> set [lit ''2222222222''] \<and>
   edit_phone (lit ''1111111111'') (lit ''3333333333'')
     \<lparr>name = lit ''john'', phones = [lit ''2222222222''], birthday = None\<rparr>
   = \<lparr>name = lit ''john'', phones = [lit ''2222222222''], birthday = None\<rparr> \<and>
   edit_phone (lit ''1111111111'') (lit ''3333333333'')
     \<lparr>name = lit ''john'', phones = [lit ''1111111111'', lit ''2222222222'', lit ''1111111111''],
        birthday = None\<rparr>
   = \<lparr>name = lit ''john'', phones = [lit ''3333333333'', lit ''2222222222'', lit ''3333333333''],
        birthday = None\<rparr>"
  using edit_phone_replaces_every_occurrence
    [of "lit ''1111111111''" "lit ''3333333333''"
        "\<lparr>name = lit ''john'', phones = [lit ''2222222222''], birthday = None\<rparr>"]
    edit_phone_replaces_every_occurrence
    [of "lit ''1111111111''" "lit ''3333333333''"
        "\<lparr>name = lit ''john'', phones = [lit ''1111111111'', lit ''2222222222'', lit ''1111111111''],
           birthday = None\<rparr>"]
  by simp

text \<open>The claim as stated fails on a record that holds the old phone twice: the code
  replaces both, the first-only reading one.\<close>

theorem edit_phone_not_first_only:
  "phones (edit_phone (lit ''1111111111'') (lit ''3333333333'')
     \<lparr>name = lit ''john'', phones = [lit ''1111111111'', lit ''2222222222'', lit ''1111111111''],
        birthday = None\<rparr>)
   \<noteq> replace_first (lit ''1111111111'') (lit ''3333333333'')
       [lit ''1111111111'', lit ''2222222222'', lit ''1111111111'']"
  by code_simp

section \<open>Names\<close>

text \<open>
  Claim C7, as amended: for every string that name validation accepts, the stored name
  is that string itself; \<open>Name\<close> changes no letter. The lower case comes from
  \<open>parse_input\<close>, which lowers every argument token before a handler sees it.
\<close>

theorem Name_stores_its_input:
  "(Name_init P s = Inr v \<longrightarrow> v = s) \<and>
   (parse_input P line = PyTuple toks \<longrightarrow> tl toks = map (lower P) (tl (split P line)))"
  by (auto simp: Name_init_def parse_input_def parse_input_body_def input_error_def
      split: if_splits list.splits)

theorem Name_stores_its_input_example:
  "Name_init example_platform (lit ''John'') = Inr (lit ''John'') \<and>
   parse_input example_platform (lit ''add John'') = PyTuple [lit ''add'', lit ''john''] \<and>
   map (lower example_platform) (tl (split example_platform (lit ''add John''))) = [lit ''john'']"
proof -
  have a: "Name_init example_platform (lit ''John'') = Inr (lit ''John'')"
    by code_simp
  have b: "parse_input example_platform (lit ''add John'') = PyTuple [lit ''add'', lit ''john'']"
    by code_simp
  from Name_stores_its_input
    [of example_platform "lit ''John''" "lit ''John''" "lit ''add John''"
        "[lit ''add'', lit ''john'']"] a b
  show ?thesis by simp
qed

text \<open>The claim as stated fails on a name with a capital letter: it is accepted and
  stored with the capital.\<close>

theorem Name_keeps_capitals:
  "Name_init example_platform (lit ''John'') = Inr (lit ''John'') \<and>
   lit ''John'' \<noteq> lower example_platform (lit ''John'')"
  by code_simp

text \<open>On every platform the digits, the blanks and the symbols of ASCII are no letters,
  and a string that holds a letter of the platform beyond ASCII, as the last one of
  \<open>jos\<close> followed by U+00E9, is accepted like any other.\<close>

lemma ascii_not_alpha:
  "c < 128 \<Longrightarrow> isdigit_char P c \<Longrightarrow> category_of P c = Number"
  "c < 128 \<Longrightarrow> isspace_char P c \<Longrightarrow> category_of P c = Separator \<or> category_of P c = Other"
  by (auto simp: isdigit_char_def isspace_char_def category_of_def ascii_category_def)

lemma Name_accepts_letter_beyond_ascii:
  "category_beyond P 233 = Letter \<Longrightarrow> Name_init P (lit ''jos'' @ [233]) = Inr (lit ''jos'' @ [233])"
  by (simp add: Name_init_def isalpha_def isalpha_char_def category_of_def ascii_category_def
      lit_def)

text \<open>
  Claim C8, as amended: every string that is not empty and holds only alphabetic
  characters is accepted; the empty string, and every string that holds a digit, a
  blank or a symbol, is rejected with the \<open>ValueError\<close> of \<open>Name\<close>. The alphabetic
  characters are the letters of Unicode; a digit is a character of a number category,
  a blank one of a separator category or a control, a symbol one of a symbol or
  punctuation category, and a mark is no letter either.
\<close>

theorem Name_accepts_nonempty_alphabetic:
  "(s \<noteq> [] \<and> list_all (isalpha_char P) s \<longrightarrow> Name_init P s = Inr s) \<and>
   (s = [] \<or> (\<exists>c \<in> set s. category_of P c = Number \<or> category_of P c = Separator \<or>
                          category_of P c = Other \<or> category_of P c = Symbol \<or>
                          category_of P c = Punctuation \<or> category_of P c = Mark) \<longrightarrow>
      Name_init P s = Inl (ValueError (lit ''Name should contain only alphabetic characters.'')))"
  by (auto simp: Name_init_def isalpha_def isalpha_char_def list_all_iff)

theorem Name_accepts_nonempty_alphabetic_example:
  "list_all (isalpha_char example_platform) (lit ''john'') \<and>
   Name_init example_platform (lit ''john'') = Inr (lit ''john'') \<and>
   list_all (isalpha_char example_platform) (lit ''jos'' @ [233]) \<and>
   Name_init example_platform (lit ''jos'' @ [233]) = Inr (lit ''jos'' @ [233]) \<and>
   category_of example_platform 49 = Number \<and>
   Name_init example_platform (lit ''john1'')
     = Inl (ValueError (lit ''Name should contain only alphabetic characters.'')) \<and>
   category_of example_platform 32 = Separator \<and>
   Name_init example_platform (lit ''john smith'')
     = Inl (ValueError (lit ''Name should contain only alphabetic characters.'')) \<and>
   category_of example_platform 45 = Punctuation \<and>
   Name_init example_platform (lit ''john-smith'')
     = Inl (ValueError (lit ''Name should contain only alphabetic characters.''))"
proof -
  have a: "list_all (isalpha_char example_platform) (lit ''john'')"
    and b: "list_all (isalpha_char example_platform) (lit ''jos'' @ [233])"
    by code_simp+
  have n: "49 \<in> set (lit ''john1'')" and s: "32 \<in> set (lit ''john smith'')"
    and p: "45 \<in> set (lit ''john-smith'')"
    by (simp_all add: lit_def)
  have cn: "category_of example_platform 49 = Number"
    and cs: "category_of example_platform 32 = Separator"
    and cp: "category_of example_platform 45 = Punctuation"
    by (simp_all add: category_of_def ascii_category_def)
  have j: "lit ''john'' \<noteq> []" "lit ''jos'' @ [233] \<noteq> []"
    by (simp_all add: lit_def)
  from Name_accepts_nonempty_alphabetic [of "lit ''john''" example_platform]
    Name_accepts_nonempty_alphabetic [of "lit ''jos'' @ [233]" example_platform]
    Name_accepts_nonempty_alphabetic [of "lit ''john1''" example_platform]
    Name_accepts_nonempty_alphabetic [of "lit ''john smith''" example_platform]
    Name_accepts_nonempty_alphabetic [of "lit ''john-smith''" example_platform]
    a b n s p cn cs cp j
  show ?thesis by blast
qed

text \<open>The claim as stated fails on the empty string: all of its characters are
  alphabetic, and it is rejected.\<close>

theorem Name_rejects_empty:
  "list_all (isalpha_char example_platform) [] \<and>
   Name_init example_platform []
     = Inl (ValueError (lit ''Name should contain only alphabetic characters.''))"
  by (simp add: Name_init_def isalpha_def)

section \<open>The invariant of the book\<close>

text \<open>
  Claim C9: every key of the book is the name of the record it maps to; the empty book
  has the property, and \<open>add_record\<close>, \<open>delete\<close>, \<open>find\<close> and \<open>get_upcoming_birthdays\<close>
  each keep it.
\<close>

theorem book_inv_preserved:
  "book_inv [] \<and> (book_inv book \<longrightarrow> book_inv (book_after op book))"
proof
  show "book_inv []" by (simp add: book_inv_def)
  show "book_inv book \<longrightarrow> book_inv (book_after op book)"
  proof
    assume inv: "book_inv book"
    show "book_inv (book_after op book)"
    proof (cases op)
      case (Add_record r)
      with inv show ?thesis by (simp add: book_inv_add_record)
    next
      case (Delete n)
      with inv show ?thesis
        by (auto split: sum.splits dest: book_inv_delete)
    next
      case (Find n)
      with inv show ?thesis by simp
    next
      case (Get_upcoming_birthdays today)
      with inv show ?thesis by simp
    qed
  qed
qed

theorem book_inv_preserved_example:
  "book_inv [(lit ''john'', \<lparr>name = lit ''john'', phones = [], birthday = None\<rparr>)] \<and>
   book_inv (book_after (Add_record \<lparr>name = lit ''ann'', phones = [], birthday = None\<rparr>)
     [(lit ''john'', \<lparr>name = lit ''john'', phones = [], birthday = None\<rparr>)]) \<and>
   book_inv (book_after (Delete (lit ''john''))
     [(lit ''john'', \<lparr>name = lit ''john'', phones = [], birthday = None\<rparr>)])"
proof -
  have a: "book_inv [(lit ''john'', \<lparr>name = lit ''john'', phones = [], birthday = None\<rparr>)]"
    by (simp add: book_inv_def)
  from book_inv_preserved
    [of "[(lit ''john'', \<lparr>name = lit ''john'', phones = [], birthday = None\<rparr>)]"
        "Add_record \<lparr>name = lit ''ann'', phones = [], birthday = None\<rparr>"]
    book_inv_preserved
    [of "[(lit ''john'', \<lparr>name = lit ''john'', phones = [], birthday = None\<rparr>)]"
        "Delete (lit ''john'')"] a
  show ?thesis by simp
qed

section \<open>Saving and loading\<close>

text \<open>
  Claim C10: saving a book to a file and loading from that file gives the book back,
  with the same names, the same phone lists in the same order and the same birthdays,
  whatever the files held before; so it is for the default file name, which
  \<open>save_data\<close> and \<open>load_data\<close> share.
\<close>

theorem save_data_load_data_round_trip:
  "load_data filename (save_data book filename files) = Inr book \<and>
   load_data default_filename (save_data book default_filename files) = Inr book"
  by (simp add: load_data_def save_data_def pickle_load_def pickle_dump_def)

end
